theory Spec2Isabelle
  imports Complex_Main "HOL-Library.Sublist"
begin

section \<open>Data model (types.ts)\<close>

text \<open>
  \<^verbatim>\<open>VisitStatus = 'follow_up' | 'converted' | 'rejected'\<close> and the enum
  \<^verbatim>\<open>UserRole\<close>. Optional and nullable fields (\<^verbatim>\<open>f?: T\<close>, \<^verbatim>\<open>T | null\<close>) are
  options: \<open>None\<close> stands for both \<^verbatim>\<open>undefined\<close> and \<^verbatim>\<open>null\<close>, which the code
  never tells apart. A JavaScript number is a \<open>real\<close> here: no rounding and no
  \<^verbatim>\<open>NaN\<close>. The field \<^verbatim>\<open>id\<close> is called \<open>row_id\<close>, since \<open>id\<close> is the identity of HOL.
\<close>

datatype VisitStatus = Follow_up | Converted | Rejected

datatype UserRole = WORKER | ADMIN

record FieldVisit =
  row_id :: "string option"
  created_at :: "string option"
  worker_name :: string
  worker_phone :: "string option"
  client_name :: string
  client_type :: string
  client_phone :: "string option"
  client_email :: "string option"
  address :: "string option"
  landmark :: string
  requirements :: "string option"
  budget :: real
  status :: VisitStatus
  follow_up_at :: "string option"
  rejection_reason :: "string option"
  latitude :: "real option"
  longitude :: "real option"
  photo_url :: "string option"

section \<open>JavaScript primitives the code relies on\<close>

text \<open>
  Strings are Isabelle strings. \<open>toLowerCase\<close> and \<open>trim\<close> are the ECMAScript
  functions on the ASCII range: the letters A to Z are lowered, every other character
  is kept; the white space trimmed is tab, line feed, vertical tab, form feed,
  carriage return and space. \<open>str_includes h s\<close> is \<^verbatim>\<open>h.includes(s)\<close>: \<open>s\<close> occurs
  in \<open>h\<close> as a contiguous block. \<open>truthy\<close> is the truth value of an optional string
  in a condition: \<^verbatim>\<open>undefined\<close>, \<^verbatim>\<open>null\<close> and \<^verbatim>\<open>''\<close> are false.
\<close>

definition lower_char :: "char \<Rightarrow> char" where
  "lower_char c =
     (let n = (of_char c :: nat) in if 65 \<le> n \<and> n \<le> 90 then char_of (n + 32) else c)"

definition toLowerCase :: "string \<Rightarrow> string" where
  "toLowerCase s = map lower_char s"

definition is_space :: "char \<Rightarrow> bool" where
  "is_space c = ((of_char c :: nat) \<in> {9, 10, 11, 12, 13, 32})"

definition trim :: "string \<Rightarrow> string" where
  "trim s = rev (dropWhile is_space (rev (dropWhile is_space s)))"

fun str_includes :: "string \<Rightarrow> string \<Rightarrow> bool" where
  "str_includes [] s = (s = [])"
| "str_includes (c # cs) s = (prefix s (c # cs) \<or> str_includes cs s)"

definition truthy :: "string option \<Rightarrow> bool" where
  "truthy x = (case x of None \<Rightarrow> False | Some s \<Rightarrow> s \<noteq> [])"

definition or_zero :: "real \<Rightarrow> real" where
  \<comment> \<open>\<^verbatim>\<open>n || 0\<close> on a number\<close>
  "or_zero n = (if n = 0 then 0 else n)"

section \<open>Aggregation layer (AdminDashboard)\<close>

subsection \<open>Status tally\<close>

record Stats =
  follow_up :: nat
  converted :: nat
  rejected :: nat
  total_revenue :: real
  total :: nat

definition stats :: "FieldVisit list \<Rightarrow> Stats" where
  "stats visits =
     (let followUpVisits = filter (\<lambda>v. status v = Follow_up) visits;
          convertedVisits = filter (\<lambda>v. status v = Converted) visits;
          rejectedVisits = filter (\<lambda>v. status v = Rejected) visits
      in \<lparr> follow_up = length followUpVisits,
           converted = length convertedVisits,
           rejected = length rejectedVisits,
           total_revenue = foldl (\<lambda>acc curr. acc + or_zero (budget curr)) 0 convertedVisits,
           total = length visits \<rparr>)"

subsection \<open>Filter\<close>

text \<open>The selector \<^verbatim>\<open>VisitStatus | 'all'\<close>.\<close>

datatype StatusFilter = AllStatuses | Only VisitStatus

definition search_hit :: "string \<Rightarrow> FieldVisit \<Rightarrow> bool" where
  \<comment> \<open>the callback of the second \<^verbatim>\<open>filter\<close>, \<open>s\<close> being the lower-cased search term\<close>
  "search_hit s v =
     (str_includes (toLowerCase (client_name v)) s \<or>
      str_includes (toLowerCase (worker_name v)) s \<or>
      (case client_phone v of None \<Rightarrow> False
       | Some p \<Rightarrow> p \<noteq> [] \<and> str_includes p s) \<or>
      (case client_email v of None \<Rightarrow> False
       | Some e \<Rightarrow> e \<noteq> [] \<and> str_includes (toLowerCase e) s))"

definition filteredVisits :: "FieldVisit list \<Rightarrow> StatusFilter \<Rightarrow> string \<Rightarrow> FieldVisit list" where
  "filteredVisits visits statusFilter search =
     (let res = visits;
          res = (case statusFilter of
                   AllStatuses \<Rightarrow> res
                 | Only st \<Rightarrow> filter (\<lambda>v. status v = st) res);
          res = (if search \<noteq> []
                 then (let s = toLowerCase search in filter (search_hit s) res)
                 else res)
      in res)"

text \<open>
  The filter as the specification words it: a field matches when it contains the search
  term case-insensitively, that is, when the lower-cased field contains the lower-cased
  term; an absent field matches no non-empty term.
\<close>

definition contains_ci :: "string \<Rightarrow> string \<Rightarrow> bool" where
  "contains_ci field term = str_includes (toLowerCase field) (toLowerCase term)"

definition opt_contains_ci :: "string option \<Rightarrow> string \<Rightarrow> bool" where
  "opt_contains_ci field term =
     (case field of None \<Rightarrow> False | Some f \<Rightarrow> contains_ci f term)"

definition status_selected :: "StatusFilter \<Rightarrow> FieldVisit \<Rightarrow> bool" where
  "status_selected statusFilter v =
     (case statusFilter of AllStatuses \<Rightarrow> True | Only st \<Rightarrow> status v = st)"

definition spec_matches :: "StatusFilter \<Rightarrow> string \<Rightarrow> FieldVisit \<Rightarrow> bool" where
  "spec_matches statusFilter search v =
     (status_selected statusFilter v \<and>
      (search = [] \<or>
       contains_ci (client_name v) search \<or>
       contains_ci (worker_name v) search \<or>
       opt_contains_ci (client_phone v) search \<or>
       opt_contains_ci (client_email v) search))"

text \<open>A visit with every optional field absent, used to write concrete inputs.\<close>

definition blank_visit :: "FieldVisit" where
  "blank_visit =
     \<lparr> row_id = None, created_at = None, worker_name = [], worker_phone = None,
       client_name = [], client_type = [], client_phone = None, client_email = None,
       address = None, landmark = [], requirements = None, budget = 0,
       status = Follow_up, follow_up_at = None, rejection_reason = None,
       latitude = None, longitude = None, photo_url = None \<rparr>"

subsection \<open>Worker rollup\<close>

text \<open>
  The entries of the \<^verbatim>\<open>Map\<close> built by \<^verbatim>\<open>workerStats\<close>. Their fields carry the
  prefix \<open>w_\<close> to keep them apart from the fields of the tally.
\<close>

record WorkerStat =
  w_name :: string
  w_total :: nat
  w_converted :: nat
  w_follow_up :: nat
  w_rejected :: nat
  w_phone :: "string option"

definition originalName :: "FieldVisit \<Rightarrow> string" where
  \<comment> \<open>\<^verbatim>\<open>v.worker_name || 'Unknown'\<close>\<close>
  "originalName v = (if worker_name v = [] then ''Unknown'' else worker_name v)"

definition normalizedKey :: "FieldVisit \<Rightarrow> string" where
  "normalizedKey v = toLowerCase (trim (originalName v))"

text \<open>
  A \<^verbatim>\<open>Map\<close> keeps its keys in insertion order: an association list with new keys
  appended. \<open>modify k f m\<close> is the in-place mutation of the object stored under \<open>k\<close>.
\<close>

fun modify :: "'k \<Rightarrow> ('v \<Rightarrow> 'v) \<Rightarrow> ('k \<times> 'v) list \<Rightarrow> ('k \<times> 'v) list" where
  "modify k f [] = []"
| "modify k f ((k', x) # m) = (if k' = k then (k', f x) # m else (k', x) # modify k f m)"

definition tally_visit :: "FieldVisit \<Rightarrow> WorkerStat \<Rightarrow> WorkerStat" where
  "tally_visit v s =
     (let s = s\<lparr>w_total := w_total s + 1\<rparr>;
          s = (case status v of
                 Converted \<Rightarrow> s\<lparr>w_converted := w_converted s + 1\<rparr>
               | Follow_up \<Rightarrow> s\<lparr>w_follow_up := w_follow_up s + 1\<rparr>
               | Rejected \<Rightarrow> s\<lparr>w_rejected := w_rejected s + 1\<rparr>);
          s = (if \<not> truthy (w_phone s) \<and> truthy (worker_phone v)
               then s\<lparr>w_phone := worker_phone v\<rparr> else s)
      in s)"

definition worker_step :: "(string \<times> WorkerStat) list \<Rightarrow> FieldVisit \<Rightarrow> (string \<times> WorkerStat) list" where
  \<comment> \<open>the body of \<^verbatim>\<open>visits.forEach\<close>\<close>
  "worker_step m v =
     (let m = (if map_of m (normalizedKey v) = None
               then m @ [(normalizedKey v,
                          \<lparr> w_name = trim (originalName v), w_total = 0, w_converted = 0,
                            w_follow_up = 0, w_rejected = 0, w_phone = worker_phone v \<rparr>)]
               else m)
      in modify (normalizedKey v) (tally_visit v) m)"

definition workerMap :: "FieldVisit list \<Rightarrow> (string \<times> WorkerStat) list" where
  "workerMap visits = foldl worker_step [] visits"

definition workerStats :: "FieldVisit list \<Rightarrow> WorkerStat list" where
  \<comment> \<open>\<^verbatim>\<open>Array.from(map.values())\<close>\<close>
  "workerStats visits = map snd (workerMap visits)"

text \<open>
  The rollup as the specification words it. The display label of a record is its worker
  name, or the literal \<open>''Unknown''\<close> when the name is missing, without the white space
  at its two ends; the key of a record is that label in lower case. The group of a key
  is the sublist of the records with that key, in list order, and the entry of a
  non-empty group is read off the group.
\<close>

definition spec_label :: "FieldVisit \<Rightarrow> string" where
  "spec_label v = trim (if worker_name v = [] then ''Unknown'' else worker_name v)"

definition spec_key :: "FieldVisit \<Rightarrow> string" where
  "spec_key v = toLowerCase (trim (if worker_name v = [] then ''Unknown'' else worker_name v))"

definition worker_group :: "string \<Rightarrow> FieldVisit list \<Rightarrow> FieldVisit list" where
  "worker_group k visits = filter (\<lambda>v. spec_key v = k) visits"

definition group_entry :: "FieldVisit list \<Rightarrow> WorkerStat" where
  "group_entry g =
     \<lparr> w_name = spec_label (hd g),
       w_total = length g,
       w_converted = length (filter (\<lambda>v. status v = Converted) g),
       w_follow_up = length (filter (\<lambda>v. status v = Follow_up) g),
       w_rejected = length (filter (\<lambda>v. status v = Rejected) g),
       w_phone = (case find (\<lambda>v. truthy (worker_phone v)) g of
                    Some v \<Rightarrow> worker_phone v
                  | None \<Rightarrow> worker_phone (hd g)) \<rparr>"

definition rollup_inv :: "(string \<times> WorkerStat) list \<Rightarrow> FieldVisit list \<Rightarrow> bool" where
  \<comment> \<open>the loop invariant of \<^verbatim>\<open>forEach\<close>: the map built so far against the records seen so far\<close>
  "rollup_inv m vs \<longleftrightarrow> distinct (map fst m) \<and>
     (\<forall>k. map_of m k = (if worker_group k vs = [] then None
                         else Some (group_entry (worker_group k vs))))"

section \<open>Visit form (VisitForm)\<close>

text \<open>
  The remote store is an external service. One submission sees it through the answers
  it gives, which are inputs of the model (\<open>Responses\<close>): whether the photo upload
  failed and the public URL of the uploaded photo, the error of the write to
  \<^verbatim>\<open>visits\<close> if there is one, the id the store gives to an inserted row and whether
  \<^verbatim>\<open>select()\<close> returns that row, and the error of the insert into
  \<^verbatim>\<open>visit_activities\<close> if there is one. The client does not make the calls throw:
  a failed call answers with an error object, of which only the message is kept here.
  A failed write leaves its collection as it was; a successful update rewrites every
  column of the rows with the given id except \<^verbatim>\<open>id\<close> and \<^verbatim>\<open>created_at\<close>, which
  the payload does not carry; a successful insert appends the row under the new id.
  The ids and time stamps that the store gives to activity rows are left absent; the
  field \<^verbatim>\<open>note\<close> of an activity is called \<open>note_text\<close>.
\<close>

datatype ActivityType = Created | Updated | Status_changed | Follow_up_added | Assigned

record VisitActivity =
  activity_id :: "string option"
  visit_id :: string
  action_type :: ActivityType
  field_name :: "string option"
  old_value :: "string option"
  new_value :: "string option"
  note_text :: string
  performed_by :: string
  activity_created_at :: "string option"

record LocationState =
  loc_latitude :: "real option"
  loc_longitude :: "real option"
  loc_loading :: bool
  loc_error :: "string option"

record Responses =
  upload_error :: bool
  public_url :: string
  visit_error :: "string option"
  new_row_id :: string
  inserted_returned :: bool
  activity_error :: "string option"

datatype MsgType = Success | Error | Warning

text \<open>
  What a submission can change: the two remote collections, the state of the form
  (\<^verbatim>\<open>msg\<close>, \<^verbatim>\<open>loading\<close>, \<^verbatim>\<open>phoneErrors\<close>) and the lines written to the console.
\<close>

record SubmitState =
  visits_tbl :: "FieldVisit list"
  activities_tbl :: "VisitActivity list"
  msg :: "(MsgType \<times> string) option"
  loading :: bool
  worker_phone_error :: "string option"
  client_phone_error :: "string option"
  console :: "string list"

definition status_text :: "VisitStatus \<Rightarrow> string" where
  \<comment> \<open>the string a status is at run time\<close>
  "status_text st = (case st of Follow_up \<Rightarrow> ''follow_up''
                     | Converted \<Rightarrow> ''converted'' | Rejected \<Rightarrow> ''rejected'')"

definition phone_error :: "string option \<Rightarrow> string option" where
  "phone_error p =
     (case p of None \<Rightarrow> None
      | Some d \<Rightarrow> if d \<noteq> [] \<and> length d \<noteq> 10 then Some ''10 digits required'' else None)"

definition validatePhones :: "FieldVisit \<Rightarrow> bool" where
  "validatePhones formData \<longleftrightarrow>
     phone_error (worker_phone formData) = None \<and> phone_error (client_phone formData) = None"

definition uploaded_photo_url ::
  "Responses \<Rightarrow> FieldVisit option \<Rightarrow> string option \<Rightarrow> string option" where
  \<comment> \<open>\<open>photo\<close> is the name of the chosen file, if one was chosen\<close>
  "uploaded_photo_url r initialData photo =
     (let photo_url0 = (case initialData of None \<Rightarrow> None
                        | Some d \<Rightarrow> if truthy (photo_url d) then photo_url d else None)
      in case photo of
           None \<Rightarrow> photo_url0
         | Some f \<Rightarrow> if \<not> upload_error r then Some (public_url r) else photo_url0)"

text \<open>
  \<^verbatim>\<open>formData\<close> is a visit without \<^verbatim>\<open>latitude\<close>, \<^verbatim>\<open>longitude\<close> and
  \<^verbatim>\<open>photo_url\<close>; it is a \<open>FieldVisit\<close> here, and \<open>visitData\<close> overwrites these
  three fields as the object literal does after the spread.
\<close>

definition visitData :: "FieldVisit \<Rightarrow> LocationState \<Rightarrow> string option \<Rightarrow> FieldVisit" where
  "visitData formData location photo_url' =
     formData\<lparr> address := Some [],
               follow_up_at := (if status formData = Follow_up then follow_up_at formData else None),
               budget := (if status formData = Converted then budget formData else 0),
               rejection_reason :=
                 (if status formData = Rejected then rejection_reason formData else None),
               latitude := loc_latitude location,
               longitude := loc_longitude location,
               photo_url := photo_url' \<rparr>"

definition store_update_visit :: "string \<Rightarrow> FieldVisit \<Rightarrow> FieldVisit list \<Rightarrow> FieldVisit list" where
  "store_update_visit i payload rows =
     map (\<lambda>row. if row_id row = Some i
                then payload\<lparr>row_id := row_id row, created_at := created_at row\<rparr>
                else row) rows"

definition store_insert_visit :: "string \<Rightarrow> FieldVisit \<Rightarrow> FieldVisit list \<Rightarrow> FieldVisit list" where
  "store_insert_visit i payload rows = rows @ [payload\<lparr>row_id := Some i\<rparr>]"

definition activity_entry :: "string \<Rightarrow> ActivityType \<Rightarrow> string \<Rightarrow> FieldVisit \<Rightarrow> VisitActivity" where
  "activity_entry i kind note_prefix formData =
     \<lparr> activity_id = None, visit_id = i, action_type = kind,
       field_name = Some ''status'', old_value = None,
       new_value = Some (status_text (status formData)),
       note_text = note_prefix @ status_text (status formData),
       performed_by = worker_name formData, activity_created_at = None \<rparr>"

definition append_activity :: "Responses \<Rightarrow> VisitActivity \<Rightarrow> SubmitState \<Rightarrow> SubmitState" where
  \<comment> \<open>\<^verbatim>\<open>await supabase.from('visit_activities').insert([...])\<close>, the answer is dropped\<close>
  "append_activity r a st =
     (case activity_error r of
        None \<Rightarrow> st\<lparr>activities_tbl := activities_tbl st @ [a]\<rparr>
      | Some e \<Rightarrow> st)"

definition existing_id :: "FieldVisit option \<Rightarrow> string option" where
  \<comment> \<open>\<^verbatim>\<open>initialData?.id\<close> when it is truthy\<close>
  "existing_id initialData =
     (case initialData of None \<Rightarrow> None
      | Some d \<Rightarrow> if truthy (row_id d) then row_id d else None)"

definition handleSubmit ::
  "Responses \<Rightarrow> FieldVisit option \<Rightarrow> FieldVisit \<Rightarrow> LocationState \<Rightarrow> string option
     \<Rightarrow> SubmitState \<Rightarrow> SubmitState" where
  "handleSubmit r initialData formData location photo st0 =
     (let st = st0\<lparr>msg := None\<rparr>;
          st = st\<lparr>worker_phone_error := phone_error (worker_phone formData),
                  client_phone_error := phone_error (client_phone formData)\<rparr>
      in if \<not> validatePhones formData then st
         else
           (let st = st\<lparr>loading := True\<rparr>;
                payload = visitData formData location (uploaded_photo_url r initialData photo)
            in case existing_id initialData of
                 Some i \<Rightarrow>
                   (case visit_error r of
                      Some e \<Rightarrow> st\<lparr>msg := Some (Error, e), loading := False\<rparr>
                    | None \<Rightarrow>
                        (let st = st\<lparr>visits_tbl := store_update_visit i payload (visits_tbl st)\<rparr>;
                             st = append_activity r
                                    (activity_entry i Updated ''Visit updated. Status: '' formData) st
                         in st\<lparr>msg := Some (Success, if initialData \<noteq> None
                                            then ''Visit updated successfully!''
                                            else ''Visit recorded successfully!''),
                               loading := False\<rparr>))
               | None \<Rightarrow>
                   (case visit_error r of
                      Some e \<Rightarrow> st\<lparr>msg := Some (Error, e), loading := False\<rparr>
                    | None \<Rightarrow>
                        (let st = st\<lparr>visits_tbl := store_insert_visit (new_row_id r) payload (visits_tbl st)\<rparr>;
                             st = (if inserted_returned r
                                   then append_activity r
                                          (activity_entry (new_row_id r) Created
                                             ''New visit created with status: '' formData) st
                                   else st)
                         in st\<lparr>msg := Some (Success, if initialData \<noteq> None
                                            then ''Visit updated successfully!''
                                            else ''Visit recorded successfully!''),
                               loading := False\<rparr>))))"

text \<open>The invariant of a visit record, as the specification words it.\<close>

definition status_exclusive :: "FieldVisit \<Rightarrow> bool" where
  "status_exclusive v \<longleftrightarrow>
     (status v \<noteq> Follow_up \<longrightarrow> follow_up_at v = None) \<and>
     (status v \<noteq> Converted \<longrightarrow> budget v = 0) \<and>
     (status v \<noteq> Rejected \<longrightarrow> rejection_reason v = None)"

section \<open>Authentication check (Login)\<close>

record UserProfile =
  user_id :: string
  name :: string
  role :: UserRole
  mobile :: string
  email :: string
  password_hash :: string
  is_active :: bool
  user_created_at :: string

datatype Portal = Portal_worker | Portal_admin | Portal_choice

text \<open>
  What a login attempt can change: the remote \<^verbatim>\<open>users\<close> collection, the \<^verbatim>\<open>error\<close>
  and \<^verbatim>\<open>loading\<close> state of the form, and the session, which is what \<^verbatim>\<open>onLogin\<close>
  receives.
\<close>

record LoginState =
  users_tbl :: "UserProfile list"
  login_error :: "string option"
  login_loading :: bool
  session :: "(UserRole \<times> string) option"

text \<open>
  The collection is read through the client of the store:
  \<^verbatim>\<open>supabase.from('users').select('*').or(f)\<close> answers with the rows that the filter
  language of the store selects for the text \<open>f\<close>, in the order the store gives them.
  The store and its filter language are not part of the repository, so the answer is
  a parameter of the model: \<open>users_or f tbl\<close> are the rows answered for \<open>f\<close> on the
  collection \<open>tbl\<close>. The code pastes the identifier into \<open>f\<close> as it was typed, without
  escaping it; what an identifier with a comma or a parenthesis selects is for the store
  to say. \<open>fetchError\<close> says that the query failed or answered without data.
\<close>

type_synonym users_query = "string \<Rightarrow> UserProfile list \<Rightarrow> UserProfile list"

definition authenticate ::
  "users_query \<Rightarrow> bool \<Rightarrow> Portal \<Rightarrow> string \<Rightarrow> string \<Rightarrow> UserProfile list
     \<Rightarrow> string + (UserRole \<times> string)" where
  \<comment> \<open>the \<^verbatim>\<open>try\<close> block of \<^verbatim>\<open>handleAuth\<close>: \<open>Inl\<close> is the message of the error thrown\<close>
  "authenticate users_or fetchError portal identifier password tbl =
     (let cleanId = toLowerCase (trim identifier);
          isEmail = str_includes cleanId ''@'';
          data = users_or (if isEmail then ''email.eq.'' @ cleanId
                           else ''mobile.eq.'' @ cleanId) tbl
      in if fetchError then Inl ''Invalid credentials or account not found.''
         else case data of
           [] \<Rightarrow> Inl ''Invalid credentials or account not found.''
         | user # others \<Rightarrow>
             if portal = Portal_worker \<and> role user \<noteq> WORKER
             then Inl ''Access Denied: This account is not registered as a Field Worker.''
             else if portal = Portal_admin \<and> role user \<noteq> ADMIN
             then Inl ''Access Denied: Administrative privileges required.''
             else if is_active user = False
             then Inl ''Account Suspended: Please contact your administrator.''
             else if password_hash user \<noteq> password
             then Inl ''Incorrect password. Please try again.''
             else Inr (role user, name user))"

definition handleAuth ::
  "users_query \<Rightarrow> bool \<Rightarrow> Portal \<Rightarrow> string \<Rightarrow> string \<Rightarrow> LoginState \<Rightarrow> LoginState" where
  "handleAuth users_or fetchError portal identifier password st0 =
     (let st = st0\<lparr>login_loading := True, login_error := None\<rparr>
      in case authenticate users_or fetchError portal identifier password (users_tbl st) of
           Inl message \<Rightarrow> st\<lparr>login_error := Some message, login_loading := False\<rparr>
         | Inr (r, n) \<Rightarrow> st\<lparr>session := Some (r, n), login_loading := False\<rparr>)"

text \<open>
  The text of the query as the amended claim words it: \<open>email.eq.\<close> when the trimmed,
  lower-cased identifier has an at sign, \<open>mobile.eq.\<close> when it has none, followed by
  that identifier.
\<close>

definition query_text :: "string \<Rightarrow> string" where
  "query_text identifier =
     (if CHR ''@'' \<in> set (toLowerCase (trim identifier)) then ''email.eq.'' else ''mobile.eq.'')
       @ toLowerCase (trim identifier)"

text \<open>Whether the portal admits the role of an account.\<close>

definition portal_admits :: "Portal \<Rightarrow> UserProfile \<Rightarrow> bool" where
  "portal_admits portal user \<longleftrightarrow>
     \<not> (portal = Portal_worker \<and> role user \<noteq> WORKER) \<and>
     \<not> (portal = Portal_admin \<and> role user \<noteq> ADMIN)"

section \<open>Concrete inputs\<close>

text \<open>Records, answers and states on which the theorems below are run.\<close>

definition acme_visit :: FieldVisit where
  "acme_visit = blank_visit\<lparr>client_name := ''Acme Corp'', worker_name := ''Ravi'',
      client_phone := Some ''9876543210'', status := Converted, budget := 500\<rparr>"

definition beta_visit :: FieldVisit where
  "beta_visit = blank_visit\<lparr>client_name := ''Beta'', worker_name := ''Sita'',
      client_email := Some ''Info@ACME.io'', status := Converted, budget := 120\<rparr>"

definition gamma_visit :: FieldVisit where
  "gamma_visit = blank_visit\<lparr>client_name := ''acme south'', worker_name := ''Ravi'',
      status := Rejected\<rparr>"

definition ext_visit :: FieldVisit where
  "ext_visit = blank_visit\<lparr>client_name := ''Delta'', worker_name := ''Ravi'',
      client_phone := Some ''EXT42''\<rparr>"

definition jane1 :: FieldVisit where
  "jane1 = blank_visit\<lparr>worker_name := ''Jane''\<rparr>"

definition jane2 :: FieldVisit where
  "jane2 = blank_visit\<lparr>worker_name := '' jane '', worker_phone := Some [],
      status := Converted\<rparr>"

definition jane3 :: FieldVisit where
  "jane3 = blank_visit\<lparr>worker_name := ''JANE'', worker_phone := Some ''9000000001''\<rparr>"

definition jane4 :: FieldVisit where
  "jane4 = blank_visit\<lparr>worker_name := ''Jane'', worker_phone := Some ''9000000002''\<rparr>"

definition nameless_visit :: FieldVisit where
  "nameless_visit = blank_visit\<lparr>client_name := ''Acme Corp'', status := Rejected\<rparr>"

definition bob_visit :: FieldVisit where
  "bob_visit = blank_visit\<lparr>worker_name := '' Bob'', status := Converted\<rparr>"

definition unknown_visit :: FieldVisit where
  "unknown_visit = blank_visit\<lparr>worker_name := CHR 0x09 # ''UNKNOWN ''\<rparr>"

definition stored_visit :: FieldVisit where
  "stored_visit = blank_visit\<lparr>row_id := Some ''v1'', created_at := Some ''2026-01-01'',
      client_name := ''Acme Corp'', worker_name := ''Ravi'',
      follow_up_at := Some ''2026-01-05T10:00''\<rparr>"

definition form_input :: FieldVisit where
  "form_input = blank_visit\<lparr>client_name := ''Acme Corp'', worker_name := ''Ravi'',
      worker_phone := Some [], client_phone := Some ''9876543210'', client_email := Some [],
      requirements := Some [], status := Converted, budget := 500,
      follow_up_at := Some ''2026-01-05T10:00'', rejection_reason := Some ''too dear''\<rparr>"

definition no_location :: LocationState where
  "no_location = \<lparr> loc_latitude = None, loc_longitude = None, loc_loading = False,
      loc_error = None \<rparr>"

definition activity_fails :: Responses where
  "activity_fails = \<lparr> upload_error = False, public_url = [], visit_error = None,
      new_row_id = ''v2'', inserted_returned = True,
      activity_error = Some ''permission denied'' \<rparr>"

definition submit_state0 :: SubmitState where
  "submit_state0 = \<lparr> visits_tbl = [stored_visit], activities_tbl = [], msg = None,
      loading = False, worker_phone_error = None, client_phone_error = None, console = [] \<rparr>"

definition worker_account :: UserProfile where
  "worker_account = \<lparr> user_id = ''u1'', name = ''Ravi'', role = WORKER,
      mobile = ''9876543210'', email = ''ravi@field.io'', password_hash = ''secret1'',
      is_active = True, user_created_at = ''2026-01-01'' \<rparr>"

definition admin_account :: UserProfile where
  "admin_account = \<lparr> user_id = ''u2'', name = ''Asha'', role = ADMIN,
      mobile = ''9000000000'', email = ''asha@field.io'', password_hash = ''secret2'',
      is_active = True, user_created_at = ''2026-01-01'' \<rparr>"

definition twin_account :: UserProfile where
  "twin_account = \<lparr> user_id = ''u3'', name = ''Ravi K'', role = WORKER,
      mobile = ''9876543210'', email = ''ravik@field.io'', password_hash = ''secret3'',
      is_active = True, user_created_at = ''2026-01-02'' \<rparr>"

text \<open>
  The answers of a store on five filter texts, each as the filter language of the store
  reads it: one condition selects the rows whose column equals the value, and a comma
  separates alternatives. This store answers any other text with no row.
\<close>

definition sample_or :: users_query where
  "sample_or f tbl =
     (if f = ''mobile.eq.9876543210'' then filter (\<lambda>u. mobile u = ''9876543210'') tbl
      else if f = ''mobile.eq.9000000000'' then filter (\<lambda>u. mobile u = ''9000000000'') tbl
      else if f = ''email.eq.ravi@field.io'' then filter (\<lambda>u. email u = ''ravi@field.io'') tbl
      else if f = ''email.eq.asha@field.io'' then filter (\<lambda>u. email u = ''asha@field.io'') tbl
      else if f = ''mobile.eq.x,role.eq.admin''
      then filter (\<lambda>u. mobile u = ''x'' \<or> role u = ADMIN) tbl
      else [])"

definition login_state0 :: LoginState where
  "login_state0 = \<lparr> users_tbl = [worker_account, admin_account, twin_account],
      login_error = None, login_loading = False, session = None \<rparr>"

section \<open>Basic facts about the primitives\<close>

lemma str_includes_iff: "str_includes h s \<longleftrightarrow> (\<exists>p q. h = p @ s @ q)"
proof -
  have "str_includes h s = sublist s h"
    by (induction h) (auto simp: sublist_Cons_right)
  then show ?thesis by (simp add: sublist_def)
qed

lemma toLowerCase_eq_Nil [simp]: "toLowerCase s = [] \<longleftrightarrow> s = []"
  by (simp add: toLowerCase_def)

lemma or_zero_id [simp]: "or_zero n = n"
  by (simp add: or_zero_def)

section \<open>Status tally: theorems\<close>

lemma status_partition:
  "length (filter (\<lambda>v. status v = Follow_up) vs)
     + length (filter (\<lambda>v. status v = Converted) vs)
     + length (filter (\<lambda>v. status v = Rejected) vs) = length vs"
proof (induction vs)
  case Nil
  show ?case by simp
next
  case (Cons v vs)
  then show ?case by (cases "status v") simp_all
qed

text \<open>
  C1. For every list of visit records, the follow-up count, the converted count and the
  rejected count of the tally add up to the total it reports, which is the length of
  the list.
\<close>

theorem stats_counts_sum_to_total:
  "follow_up (stats visits) + converted (stats visits) + rejected (stats visits)
     = total (stats visits)
   \<and> total (stats visits) = length visits"
  using status_partition [of visits] by (simp add: stats_def Let_def)

theorem stats_counts_sum_to_total_witness:
  "follow_up (stats [acme_visit, beta_visit, gamma_visit])
     + converted (stats [acme_visit, beta_visit, gamma_visit])
     + rejected (stats [acme_visit, beta_visit, gamma_visit]) = 3"
  using stats_counts_sum_to_total [of "[acme_visit, beta_visit, gamma_visit]"] by simp

lemma foldl_plus_shift:
  "foldl (\<lambda>acc curr. acc + f curr) (a :: real) xs = a + sum_list (map f xs)"
  by (induction xs arbitrary: a) simp_all

lemma revenue_sum:
  "total_revenue (stats visits)
     = sum_list (map budget (filter (\<lambda>v. status v = Converted) visits))"
proof -
  have "(\<lambda>curr. or_zero (budget curr)) = budget" by (simp add: fun_eq_iff)
  then show ?thesis by (simp add: stats_def Let_def foldl_plus_shift)
qed

lemma converted_sum_update:
  assumes "i < length vs" and "status (vs ! i) \<noteq> Converted"
  shows "sum_list (map budget (filter (\<lambda>v. status v = Converted) (vs[i := (vs ! i)\<lparr>budget := b\<rparr>])))
           = sum_list (map budget (filter (\<lambda>v. status v = Converted) vs))"
  using assms
proof (induction vs arbitrary: i)
  case Nil
  then show ?case by simp
next
  case (Cons v vs)
  show ?case
  proof (cases i)
    case 0
    with Cons.prems show ?thesis by simp
  next
    case (Suc j)
    with Cons.prems have "j < length vs" and "status (vs ! j) \<noteq> Converted" by simp_all
    from Cons.IH [OF this] Suc show ?thesis by simp
  qed
qed

text \<open>
  C2. The revenue total is the sum of \<open>budget\<close> over exactly the converted records, and
  replacing the budget of a record whose status is not converted leaves it unchanged.
\<close>

theorem revenue_is_converted_budget_sum:
  "total_revenue (stats visits)
     = sum_list (map budget (filter (\<lambda>v. status v = Converted) visits))
   \<and> (\<forall>i b. i < length visits \<longrightarrow> status (visits ! i) \<noteq> Converted \<longrightarrow>
         total_revenue (stats (visits[i := (visits ! i)\<lparr>budget := b\<rparr>]))
           = total_revenue (stats visits))"
  by (simp add: revenue_sum converted_sum_update)

theorem revenue_is_converted_budget_sum_witness:
  "total_revenue (stats [blank_visit\<lparr>status := Converted, budget := 500\<rparr>, blank_visit])
     = sum_list (map budget (filter (\<lambda>v. status v = Converted)
         [blank_visit\<lparr>status := Converted, budget := 500\<rparr>, blank_visit]))
   \<and> (1::nat) < length [blank_visit\<lparr>status := Converted, budget := 500\<rparr>, blank_visit]
   \<and> status ([blank_visit\<lparr>status := Converted, budget := 500\<rparr>, blank_visit] ! 1) \<noteq> Converted
   \<and> total_revenue (stats ([blank_visit\<lparr>status := Converted, budget := 500\<rparr>, blank_visit]
         [1 := blank_visit\<lparr>budget := 70\<rparr>])) = 500"
proof -
  let ?vs = "[blank_visit\<lparr>status := Converted, budget := 500\<rparr>, blank_visit]"
  have len: "(1::nat) < length ?vs" by simp
  have st: "status (?vs ! 1) \<noteq> Converted" by (simp add: blank_visit_def)
  have now: "total_revenue (stats ?vs) = 500" by (simp add: stats_def Let_def blank_visit_def)
  from revenue_is_converted_budget_sum [of ?vs]
  have sum: "total_revenue (stats ?vs)
      = sum_list (map budget (filter (\<lambda>v. status v = Converted) ?vs))"
    and upd: "\<forall>i b. i < length ?vs \<longrightarrow> status (?vs ! i) \<noteq> Converted \<longrightarrow>
         total_revenue (stats (?vs[i := (?vs ! i)\<lparr>budget := b\<rparr>])) = total_revenue (stats ?vs)"
    by blast+
  from upd len st have "total_revenue (stats (?vs[1 := (?vs ! 1)\<lparr>budget := 70\<rparr>]))
      = total_revenue (stats ?vs)" by blast
  with now have "total_revenue (stats (?vs[1 := blank_visit\<lparr>budget := 70\<rparr>])) = 500" by simp
  with sum len st show ?thesis by blast
qed

section \<open>Filter: theorems\<close>

lemma search_hit_lowered:
  assumes "search \<noteq> []"
  shows "search_hit (toLowerCase search) v \<longleftrightarrow>
     (contains_ci (client_name v) search \<or>
      contains_ci (worker_name v) search \<or>
      (case client_phone v of None \<Rightarrow> False | Some p \<Rightarrow> str_includes p (toLowerCase search)) \<or>
      opt_contains_ci (client_email v) search)"
proof -
  from assms have ne: "toLowerCase search \<noteq> []" by simp
  have guard: "\<And>x. (x \<noteq> [] \<and> str_includes x (toLowerCase search)) = str_includes x (toLowerCase search)"
    using ne by (case_tac x) auto
  have guard2: "\<And>x. (x \<noteq> [] \<and> str_includes (toLowerCase x) (toLowerCase search)) = str_includes (toLowerCase x) (toLowerCase search)"
    using ne by (case_tac x) (auto simp: toLowerCase_def)
  show ?thesis
    by (simp add: search_hit_def contains_ci_def opt_contains_ci_def guard guard2 split: option.splits)
qed

lemma filteredVisits_as_filter:
  "filteredVisits visits statusFilter search =
     filter (\<lambda>v. status_selected statusFilter v \<and>
                 (search = [] \<or> search_hit (toLowerCase search) v)) visits"
  by (cases statusFilter) (simp_all add: filteredVisits_def status_selected_def Let_def)

lemma phone_hit_case_free:
  assumes "map_option toLowerCase (client_phone v) = client_phone v"
  shows "(case client_phone v of None \<Rightarrow> False
          | Some p \<Rightarrow> str_includes p (toLowerCase search))
         = opt_contains_ci (client_phone v) search"
  using assms by (cases "client_phone v") (simp_all add: opt_contains_ci_def contains_ci_def)

text \<open>
  C3, as amended. The filter returns exactly the records, in list order, that the
  status selector admits and, when the search term is not empty, whose client name,
  worker name or client email contains the term case-insensitively, or whose client
  phone, taken as it is stored, contains the lower-cased term. An empty term matches
  every record the selector admits. On a list in which no phone has an upper-case
  letter, as is every phone that the form writes, this is the filter of the
  specification.
\<close>

theorem filteredVisits_phone_not_folded:
  "filteredVisits visits statusFilter search =
     filter (\<lambda>v. status_selected statusFilter v \<and>
         (search = [] \<or>
          contains_ci (client_name v) search \<or>
          contains_ci (worker_name v) search \<or>
          (case client_phone v of None \<Rightarrow> False
           | Some p \<Rightarrow> str_includes p (toLowerCase search)) \<or>
          opt_contains_ci (client_email v) search)) visits
   \<and> ((\<forall>v \<in> set visits. map_option toLowerCase (client_phone v) = client_phone v) \<longrightarrow>
        filteredVisits visits statusFilter search
          = filter (spec_matches statusFilter search) visits)"
proof (intro conjI impI)
  have same: "(\<lambda>v. status_selected statusFilter v \<and> (search = [] \<or> search_hit (toLowerCase search) v))
      = (\<lambda>v. status_selected statusFilter v \<and>
         (search = [] \<or>
          contains_ci (client_name v) search \<or>
          contains_ci (worker_name v) search \<or>
          (case client_phone v of None \<Rightarrow> False
           | Some p \<Rightarrow> str_includes p (toLowerCase search)) \<or>
          opt_contains_ci (client_email v) search))"
    using search_hit_lowered [of search] by (cases "search = []") (simp_all add: fun_eq_iff)
  then show exact: "filteredVisits visits statusFilter search =
     filter (\<lambda>v. status_selected statusFilter v \<and>
         (search = [] \<or>
          contains_ci (client_name v) search \<or>
          contains_ci (worker_name v) search \<or>
          (case client_phone v of None \<Rightarrow> False
           | Some p \<Rightarrow> str_includes p (toLowerCase search)) \<or>
          opt_contains_ci (client_email v) search)) visits"
    by (simp add: filteredVisits_as_filter)
  assume "\<forall>v \<in> set visits. map_option toLowerCase (client_phone v) = client_phone v"
  then show "filteredVisits visits statusFilter search
          = filter (spec_matches statusFilter search) visits"
    unfolding exact
    by (intro filter_cong refl) (simp add: spec_matches_def phone_hit_case_free)
qed

theorem filteredVisits_phone_not_folded_witness:
  "filteredVisits [acme_visit, beta_visit, gamma_visit, ext_visit] (Only Converted) ''ACME''
     = [acme_visit, beta_visit]
   \<and> filteredVisits [acme_visit, ext_visit] AllStatuses ''ext'' = []
   \<and> filteredVisits [acme_visit, beta_visit, gamma_visit] AllStatuses ''765''
     = filter (spec_matches AllStatuses ''765'') [acme_visit, beta_visit, gamma_visit]"
proof -
  have a: "filter (\<lambda>v. status_selected (Only Converted) v \<and>
         (''ACME'' = [] \<or>
          contains_ci (client_name v) ''ACME'' \<or>
          contains_ci (worker_name v) ''ACME'' \<or>
          (case client_phone v of None \<Rightarrow> False
           | Some p \<Rightarrow> str_includes p (toLowerCase ''ACME'')) \<or>
          opt_contains_ci (client_email v) ''ACME'')) [acme_visit, beta_visit, gamma_visit, ext_visit]
      = [acme_visit, beta_visit]"
    by code_simp
  have b: "filter (\<lambda>v. status_selected AllStatuses v \<and>
         (''ext'' = [] \<or>
          contains_ci (client_name v) ''ext'' \<or>
          contains_ci (worker_name v) ''ext'' \<or>
          (case client_phone v of None \<Rightarrow> False
           | Some p \<Rightarrow> str_includes p (toLowerCase ''ext'')) \<or>
          opt_contains_ci (client_email v) ''ext'')) [acme_visit, ext_visit]
      = []"
    by code_simp
  have digits: "\<forall>v \<in> set [acme_visit, beta_visit, gamma_visit].
      map_option toLowerCase (client_phone v) = client_phone v"
    by code_simp
  note exact = filteredVisits_phone_not_folded [THEN conjunct1]
  note on_digits = filteredVisits_phone_not_folded [THEN conjunct2, THEN mp]
  have c: "filteredVisits [acme_visit, beta_visit, gamma_visit] AllStatuses ''765''
     = filter (spec_matches AllStatuses ''765'') [acme_visit, beta_visit, gamma_visit]"
    using digits by (rule on_digits)
  have a': "filteredVisits [acme_visit, beta_visit, gamma_visit, ext_visit] (Only Converted) ''ACME''
     = [acme_visit, beta_visit]"
    by (simp only: exact a)
  have b': "filteredVisits [acme_visit, ext_visit] AllStatuses ''ext'' = []"
    by (simp only: exact b)
  from a' b' c show ?thesis by (intro conjI)
qed

text \<open>
  C3 as it is stated fails on the phone. The record \<open>ext_visit\<close> has the client phone
  \<open>''EXT42''\<close>, which contains the term \<open>''ext''\<close> case-insensitively, and no other
  field of it matches: the filter of the specification keeps the record, the code drops
  it, because it lower-cases the search term and compares the phone as it is stored.
\<close>

theorem filteredVisits_spec_counterexample:
  "filteredVisits [ext_visit] AllStatuses ''ext'' = []
   \<and> filter (spec_matches AllStatuses ''ext'') [ext_visit] = [ext_visit]"
  by code_simp

text \<open>
  C10. Filtering the result of the filter again, with the same selector and the same
  search term, gives the same list.
\<close>

theorem filteredVisits_idempotent:
  "filteredVisits (filteredVisits visits statusFilter search) statusFilter search
     = filteredVisits visits statusFilter search"
  by (simp add: filteredVisits_as_filter)

theorem filteredVisits_idempotent_witness:
  "filteredVisits (filteredVisits [acme_visit, beta_visit, gamma_visit] (Only Converted) ''ACME'')
      (Only Converted) ''ACME''
     = filteredVisits [acme_visit, beta_visit, gamma_visit] (Only Converted) ''ACME''"
  by (rule filteredVisits_idempotent)

section \<open>Worker rollup: theorems\<close>

lemma modify_keys: "map fst (modify k f m) = map fst m"
  by (induction m) auto

lemma map_of_modify:
  "map_of (modify k f m) k' = (if k' = k then map_option f (map_of m k) else map_of m k')"
  by (induction m) auto


lemma find_append:
  "find P (xs @ ys) = (case find P xs of None \<Rightarrow> find P ys | Some x \<Rightarrow> Some x)"
  by (induction xs) auto

lemma tally_total: "w_total (tally_visit v s) = w_total s + 1"
  by (cases "status v") (simp_all add: tally_visit_def Let_def)
lemma tally_name: "w_name (tally_visit v s) = w_name s"
  by (cases "status v") (simp_all add: tally_visit_def Let_def)
lemma tally_converted: "w_converted (tally_visit v s) = w_converted s + (if status v = Converted then 1 else 0)"
  by (cases "status v") (simp_all add: tally_visit_def Let_def)
lemma tally_follow_up: "w_follow_up (tally_visit v s) = w_follow_up s + (if status v = Follow_up then 1 else 0)"
  by (cases "status v") (simp_all add: tally_visit_def Let_def)
lemma tally_rejected: "w_rejected (tally_visit v s) = w_rejected s + (if status v = Rejected then 1 else 0)"
  by (cases "status v") (simp_all add: tally_visit_def Let_def)
lemma tally_phone: "w_phone (tally_visit v s) =
    (if \<not> truthy (w_phone s) \<and> truthy (worker_phone v) then worker_phone v else w_phone s)"
  by (cases "status v") (simp_all add: tally_visit_def Let_def)

lemmas tally_fields = tally_total tally_name tally_converted tally_follow_up tally_rejected tally_phone

lemma group_phone_snoc:
  assumes "g \<noteq> []"
  shows "w_phone (group_entry (g @ [v])) =
    (if \<not> truthy (w_phone (group_entry g)) \<and> truthy (worker_phone v)
     then worker_phone v else w_phone (group_entry g))"
proof (cases "find (\<lambda>v. truthy (worker_phone v)) g")
  case None
  then have "\<not> truthy (worker_phone (hd g))"
    using assms by (cases g) (auto simp: find_None_iff)
  with None assms show ?thesis
    by (simp add: group_entry_def find_append)
next
  case (Some u)
  then have "truthy (worker_phone u)" by (auto simp: find_Some_iff)
  with Some assms show ?thesis
    by (simp add: group_entry_def find_append)
qed

lemma tally_visit_next:
  assumes "g \<noteq> []"
  shows "tally_visit v (group_entry g) = group_entry (g @ [v])"
proof (rule WorkerStat.equality)
  show "w_phone (tally_visit v (group_entry g)) = w_phone (group_entry (g @ [v]))"
    by (simp only: tally_phone group_phone_snoc [OF assms])
  show "w_name (tally_visit v (group_entry g)) = w_name (group_entry (g @ [v]))"
    using assms by (simp add: tally_name group_entry_def)
  show "w_total (tally_visit v (group_entry g)) = w_total (group_entry (g @ [v]))"
    by (simp add: tally_total group_entry_def)
  show "w_converted (tally_visit v (group_entry g)) = w_converted (group_entry (g @ [v]))"
    by (simp add: tally_converted group_entry_def)
  show "w_follow_up (tally_visit v (group_entry g)) = w_follow_up (group_entry (g @ [v]))"
    by (simp add: tally_follow_up group_entry_def)
  show "w_rejected (tally_visit v (group_entry g)) = w_rejected (group_entry (g @ [v]))"
    by (simp add: tally_rejected group_entry_def)
  show "WorkerStat.more (tally_visit v (group_entry g)) = WorkerStat.more (group_entry (g @ [v]))"
    by simp
qed

lemma normalizedKey_spec: "normalizedKey v = spec_key v"
  by (simp add: normalizedKey_def originalName_def spec_key_def)

lemma originalName_spec: "trim (originalName v) = spec_label v"
  by (simp add: originalName_def spec_label_def)

lemma tally_visit_first:
  "tally_visit v \<lparr> w_name = trim (originalName v), w_total = 0, w_converted = 0,
       w_follow_up = 0, w_rejected = 0, w_phone = worker_phone v \<rparr> = group_entry [v]"
  by (rule WorkerStat.equality) (simp_all add: tally_fields group_entry_def originalName_spec)

lemma rollup_inv_step:
  assumes "rollup_inv m vs"
  shows "rollup_inv (worker_step m v) (vs @ [v])"
proof -
  let ?k = "spec_key v"
  from assms have dist: "distinct (map fst m)"
    and look: "\<And>k. map_of m k = (if worker_group k vs = [] then None
                         else Some (group_entry (worker_group k vs)))"
    by (simp_all add: rollup_inv_def)
  have other: "\<And>k. k \<noteq> ?k \<Longrightarrow> worker_group k (vs @ [v]) = worker_group k vs"
    by (auto simp: worker_group_def)
  have own: "worker_group ?k (vs @ [v]) = worker_group ?k vs @ [v]"
    by (simp add: worker_group_def)
  show ?thesis
  proof (cases "worker_group ?k vs = []")
    case True
    then have absent: "map_of m ?k = None" by (simp add: look)
    then have notin: "?k \<notin> fst ` set m" by (simp add: map_of_eq_None_iff)
    have step: "worker_step m v = modify ?k (tally_visit v)
        (m @ [(?k, \<lparr> w_name = trim (originalName v), w_total = 0, w_converted = 0,
                            w_follow_up = 0, w_rejected = 0, w_phone = worker_phone v \<rparr>)])"
      using absent by (simp add: worker_step_def normalizedKey_spec)
    have d: "distinct (map fst (worker_step m v))"
      using dist notin by (simp add: step modify_keys)
    have l: "map_of (worker_step m v) k = (if worker_group k (vs @ [v]) = [] then None
                         else Some (group_entry (worker_group k (vs @ [v]))))" for k
    proof (cases "k = ?k")
      case True
      then show ?thesis using absent \<open>worker_group ?k vs = []\<close>
        by (simp add: step map_of_modify map_add_def own tally_visit_first)
    next
      case False
      then show ?thesis
        by (simp add: step map_of_modify map_add_def other look)
    qed
    from d l show ?thesis by (simp add: rollup_inv_def)
  next
    case False
    then have present: "map_of m ?k = Some (group_entry (worker_group ?k vs))" by (simp add: look)
    then have step: "worker_step m v = modify ?k (tally_visit v) m"
      by (simp add: worker_step_def normalizedKey_spec)
    have d: "distinct (map fst (worker_step m v))"
      using dist by (simp add: step modify_keys)
    have l: "map_of (worker_step m v) k = (if worker_group k (vs @ [v]) = [] then None
                         else Some (group_entry (worker_group k (vs @ [v]))))" for k
    proof (cases "k = ?k")
      case True
      then show ?thesis using present False
        by (simp add: step map_of_modify own tally_visit_next)
    next
      case False
      then show ?thesis
        by (simp add: step map_of_modify other look)
    qed
    from d l show ?thesis by (simp add: rollup_inv_def)
  qed
qed

lemma rollup_inv_workerMap: "rollup_inv (workerMap visits) visits"
proof (induction visits rule: rev_induct)
  case Nil
  show ?case by (simp add: workerMap_def rollup_inv_def worker_group_def)
next
  case (snoc v vs)
  then show ?case using rollup_inv_step [of "workerMap vs" vs v]
    by (simp add: workerMap_def)
qed

lemma workerMap_lookup:
  "map_of (workerMap visits) k =
     (if worker_group k visits = [] then None else Some (group_entry (worker_group k visits)))"
  using rollup_inv_workerMap [of visits] by (simp add: rollup_inv_def)

lemma workerMap_distinct: "distinct (map fst (workerMap visits))"
  using rollup_inv_workerMap [of visits] by (simp add: rollup_inv_def)


lemma workerMap_entry:
  "(k, e) \<in> set (workerMap visits) \<longleftrightarrow>
     worker_group k visits \<noteq> [] \<and> e = group_entry (worker_group k visits)"
proof -
  have "(k, e) \<in> set (workerMap visits) \<longleftrightarrow> map_of (workerMap visits) k = Some e"
    using workerMap_distinct [of visits] by simp
  also have "\<dots> \<longleftrightarrow> worker_group k visits \<noteq> [] \<and> e = group_entry (worker_group k visits)"
    by (auto simp: workerMap_lookup)
  finally show ?thesis .
qed

lemma workerMap_keys: "fst ` set (workerMap visits) = spec_key ` set visits"
proof -
  have "k \<in> fst ` set (workerMap visits) \<longleftrightarrow> k \<in> spec_key ` set visits" for k
  proof -
    have "k \<in> fst ` set (workerMap visits) \<longleftrightarrow> map_of (workerMap visits) k \<noteq> None"
      by (simp add: map_of_eq_None_iff)
    also have "\<dots> \<longleftrightarrow> worker_group k visits \<noteq> []" by (simp add: workerMap_lookup)
    also have "\<dots> \<longleftrightarrow> k \<in> spec_key ` set visits"
      by (auto simp: worker_group_def filter_empty_conv)
    finally show ?thesis .
  qed
  then show ?thesis by blast
qed

lemma workerStats_length: "length (workerStats visits) = card (spec_key ` set visits)"
proof -
  have "card (spec_key ` set visits) = card (set (map fst (workerMap visits)))"
    by (simp add: workerMap_keys)
  also have "\<dots> = length (map fst (workerMap visits))"
    using workerMap_distinct [of visits] by (rule distinct_card)
  finally show ?thesis by (simp add: workerStats_def)
qed

lemma jane_keys:
  "trim ''Jane'' = ''Jane''" "toLowerCase ''Jane'' = ''jane''"
  "toLowerCase (trim '' jane '') = ''jane''" "toLowerCase (trim ''JANE'') = ''jane''"
  by code_simp+

lemma unknown_keys:
  "trim ''Unknown'' = ''Unknown''" "toLowerCase ''Unknown'' = ''unknown''"
  "trim '' Bob'' = ''Bob''" "toLowerCase ''Bob'' = ''bob''"
  "toLowerCase (trim (CHR 0x09 # ''UNKNOWN '')) = ''unknown''"
  by code_simp+

lemma jane_rollup:
  assumes "worker_name v1 = ''Jane''" and "worker_name v2 = '' jane ''"
    and "worker_name v3 = ''JANE''"
  shows "workerMap [v1, v2, v3]
           = [(''jane'', tally_visit v3 (tally_visit v2 (tally_visit v1
                \<lparr> w_name = ''Jane'', w_total = 0, w_converted = 0,
                  w_follow_up = 0, w_rejected = 0, w_phone = worker_phone v1 \<rparr>)))]"
proof -
  have k: "normalizedKey v1 = ''jane''" "normalizedKey v2 = ''jane''" "normalizedKey v3 = ''jane''"
    and n: "trim (originalName v1) = ''Jane''"
    using assms by (simp_all add: normalizedKey_def originalName_def jane_keys)
  show ?thesis
    by (simp add: workerMap_def worker_step_def k n)
qed

lemma unknown_rollup:
  assumes "worker_name v1 = []" and "worker_name v2 = '' Bob''"
    and "worker_name v3 = CHR 0x09 # ''UNKNOWN ''"
  shows "workerMap [v1, v2, v3]
           = [(''unknown'', tally_visit v3 (tally_visit v1
                \<lparr> w_name = ''Unknown'', w_total = 0, w_converted = 0,
                  w_follow_up = 0, w_rejected = 0, w_phone = worker_phone v1 \<rparr>)),
              (''bob'', tally_visit v2
                \<lparr> w_name = ''Bob'', w_total = 0, w_converted = 0,
                  w_follow_up = 0, w_rejected = 0, w_phone = worker_phone v2 \<rparr>)]"
proof -
  have k: "normalizedKey v1 = ''unknown''" "normalizedKey v2 = ''bob''"
      "normalizedKey v3 = ''unknown''"
    and n: "trim (originalName v1) = ''Unknown''" "trim (originalName v2) = ''Bob''"
    using assms by (simp_all add: normalizedKey_def originalName_def unknown_keys)
  show ?thesis
    by (simp add: workerMap_def worker_step_def k n)
qed

text \<open>
  C4. The rollup has one entry for each key, the key of a record being its worker name
  (the literal \<open>''Unknown''\<close> when the name is missing) trimmed and lower-cased; the
  entry of a key shows the trimmed name of the first record of its group and counts the
  records of the group. Three records named \<open>''Jane''\<close>, \<open>'' jane ''\<close> and \<open>''JANE''\<close>,
  in that order, give exactly one entry, shown as \<open>''Jane''\<close>, with total 3. A record
  without a name, one named \<open>'' Bob''\<close> and one named \<open>''UNKNOWN ''\<close> after a tab give
  two entries: \<open>''Unknown''\<close> with total 2, then \<open>''Bob''\<close> with total 1.
\<close>

theorem worker_rollup_groups:
  "distinct (map fst (workerMap visits))
   \<and> fst ` set (workerMap visits)
       = (\<lambda>v. toLowerCase (trim (if worker_name v = [] then ''Unknown'' else worker_name v)))
           ` set visits
   \<and> length (workerStats visits) = card (spec_key ` set visits)
   \<and> (\<forall>k e. (k, e) \<in> set (workerMap visits) \<longrightarrow>
         worker_group k visits \<noteq> []
         \<and> (\<forall>v \<in> set (worker_group k visits).
               toLowerCase (trim (if worker_name v = [] then ''Unknown'' else worker_name v)) = k)
         \<and> w_name e = trim (if worker_name (hd (worker_group k visits)) = [] then ''Unknown''
                             else worker_name (hd (worker_group k visits)))
         \<and> w_total e = length (worker_group k visits))
   \<and> (\<forall>v1 v2 v3. worker_name v1 = ''Jane'' \<and> worker_name v2 = '' jane ''
           \<and> worker_name v3 = ''JANE'' \<longrightarrow>
         (\<exists>e. workerStats [v1, v2, v3] = [e] \<and> w_name e = ''Jane'' \<and> w_total e = 3))
   \<and> (\<forall>v1 v2 v3. worker_name v1 = [] \<and> worker_name v2 = '' Bob''
           \<and> worker_name v3 = CHR 0x09 # ''UNKNOWN '' \<longrightarrow>
         map (\<lambda>e. (w_name e, w_total e)) (workerStats [v1, v2, v3])
           = [(''Unknown'', 2), (''Bob'', 1)])"
proof (intro conjI allI impI ballI)
  show "distinct (map fst (workerMap visits))" by (rule workerMap_distinct)
  have sk: "spec_key = (\<lambda>v. toLowerCase (trim (if worker_name v = [] then ''Unknown'' else worker_name v)))"
    by (simp add: fun_eq_iff spec_key_def)
  show "fst ` set (workerMap visits)
       = (\<lambda>v. toLowerCase (trim (if worker_name v = [] then ''Unknown'' else worker_name v)))
           ` set visits"
    using workerMap_keys [of visits] by (simp only: sk)
  show "length (workerStats visits) = card (spec_key ` set visits)"
    by (rule workerStats_length)
next
  fix k e assume "(k, e) \<in> set (workerMap visits)"
  then have g: "worker_group k visits \<noteq> []" and e: "e = group_entry (worker_group k visits)"
    by (simp_all add: workerMap_entry)
  show "worker_group k visits \<noteq> []" by (rule g)
  show "w_name e = trim (if worker_name (hd (worker_group k visits)) = [] then ''Unknown''
                             else worker_name (hd (worker_group k visits)))"
    by (simp add: e group_entry_def spec_label_def)
  show "w_total e = length (worker_group k visits)"
    by (simp add: e group_entry_def)
  fix v assume "v \<in> set (worker_group k visits)"
  then show "toLowerCase (trim (if worker_name v = [] then ''Unknown'' else worker_name v)) = k"
    by (simp add: worker_group_def spec_key_def)
next
  fix v1 v2 v3 :: FieldVisit
  assume "worker_name v1 = ''Jane'' \<and> worker_name v2 = '' jane '' \<and> worker_name v3 = ''JANE''"
  then have "workerMap [v1, v2, v3]
           = [(''jane'', tally_visit v3 (tally_visit v2 (tally_visit v1
                \<lparr> w_name = ''Jane'', w_total = 0, w_converted = 0,
                  w_follow_up = 0, w_rejected = 0, w_phone = worker_phone v1 \<rparr>)))]"
    by (simp add: jane_rollup)
  then show "\<exists>e. workerStats [v1, v2, v3] = [e] \<and> w_name e = ''Jane'' \<and> w_total e = 3"
    by (simp add: workerStats_def tally_name tally_total)
next
  fix v1 v2 v3 :: FieldVisit
  assume "worker_name v1 = [] \<and> worker_name v2 = '' Bob''
      \<and> worker_name v3 = CHR 0x09 # ''UNKNOWN ''"
  then have "workerMap [v1, v2, v3]
           = [(''unknown'', tally_visit v3 (tally_visit v1
                \<lparr> w_name = ''Unknown'', w_total = 0, w_converted = 0,
                  w_follow_up = 0, w_rejected = 0, w_phone = worker_phone v1 \<rparr>)),
              (''bob'', tally_visit v2
                \<lparr> w_name = ''Bob'', w_total = 0, w_converted = 0,
                  w_follow_up = 0, w_rejected = 0, w_phone = worker_phone v2 \<rparr>)]"
    by (simp add: unknown_rollup)
  then show "map (\<lambda>e. (w_name e, w_total e)) (workerStats [v1, v2, v3])
           = [(''Unknown'', 2), (''Bob'', 1)]"
    by (simp add: workerStats_def tally_name tally_total)
qed

theorem worker_rollup_groups_witness:
  "map (\<lambda>e. (w_name e, w_total e)) (workerStats [jane1, jane2, jane3]) = [(''Jane'', 3)]
   \<and> map (\<lambda>e. (w_name e, w_total e)) (workerStats [nameless_visit, bob_visit, unknown_visit])
       = [(''Unknown'', 2), (''Bob'', 1)]
   \<and> length (workerStats [jane1, nameless_visit, bob_visit, jane2, unknown_visit, jane3]) = 3
   \<and> (''unknown'', workerStats [jane1, nameless_visit, bob_visit, jane2, unknown_visit, jane3] ! 1)
       \<in> set (workerMap [jane1, nameless_visit, bob_visit, jane2, unknown_visit, jane3])
   \<and> w_name (workerStats [jane1, nameless_visit, bob_visit, jane2, unknown_visit, jane3] ! 1)
       = ''Unknown''
   \<and> w_total (workerStats [jane1, nameless_visit, bob_visit, jane2, unknown_visit, jane3] ! 1) = 2"
proof -
  let ?vs = "[jane1, nameless_visit, bob_visit, jane2, unknown_visit, jane3]"
  note T = worker_rollup_groups [of ?vs]
  have names: "worker_name jane1 = ''Jane'' \<and> worker_name jane2 = '' jane ''
      \<and> worker_name jane3 = ''JANE''"
    by (simp add: jane1_def jane2_def jane3_def blank_visit_def)
  have names2: "worker_name nameless_visit = [] \<and> worker_name bob_visit = '' Bob''
      \<and> worker_name unknown_visit = CHR 0x09 # ''UNKNOWN ''"
    by (simp add: nameless_visit_def bob_visit_def unknown_visit_def blank_visit_def)
  from T [THEN conjunct2, THEN conjunct2, THEN conjunct2, THEN conjunct2, THEN conjunct1,
      rule_format, OF names]
  obtain e where e: "workerStats [jane1, jane2, jane3] = [e]" "w_name e = ''Jane''" "w_total e = 3"
    by (elim exE conjE)
  then have a: "map (\<lambda>e. (w_name e, w_total e)) (workerStats [jane1, jane2, jane3]) = [(''Jane'', 3)]"
    by simp
  have b: "map (\<lambda>e. (w_name e, w_total e)) (workerStats [nameless_visit, bob_visit, unknown_visit])
       = [(''Unknown'', 2), (''Bob'', 1)]"
    by (rule T [THEN conjunct2, THEN conjunct2, THEN conjunct2, THEN conjunct2, THEN conjunct2,
      rule_format, OF names2])
  have card: "card (spec_key ` set ?vs) = 3" by code_simp
  have c: "length (workerStats ?vs) = 3"
    using T [THEN conjunct2, THEN conjunct2, THEN conjunct1] by (simp only: card)
  have mem: "(''unknown'', workerStats ?vs ! 1) \<in> set (workerMap ?vs)" by code_simp
  have first: "worker_name (hd (worker_group ''unknown'' ?vs)) = []" by code_simp
  have len: "length (worker_group ''unknown'' ?vs) = 2" by code_simp
  note E = T [THEN conjunct2, THEN conjunct2, THEN conjunct2, THEN conjunct1, rule_format, OF mem]
  have d: "w_name (workerStats ?vs ! 1) = ''Unknown''"
    using E [THEN conjunct2, THEN conjunct2, THEN conjunct1]
    by (simp add: first unknown_keys)
  have f: "w_total (workerStats ?vs ! 1) = 2"
    using E [THEN conjunct2, THEN conjunct2, THEN conjunct2] by (simp only: len)
  from a b c mem d f show ?thesis by (intro conjI)
qed

text \<open>
  C9. The phone of a rollup entry is the worker phone of the first record of its group, in
  list order, that carries a non-empty phone. When no record of the group does, the
  entry keeps what the first record of the group carries, which is absent or empty.
\<close>

theorem worker_rollup_phone:
  "(k, e) \<in> set (workerMap visits) \<Longrightarrow>
     (case find (\<lambda>v. truthy (worker_phone v)) (worker_group k visits) of
        Some v \<Rightarrow> w_phone e = worker_phone v
      | None \<Rightarrow> w_phone e = worker_phone (hd (worker_group k visits)) \<and> \<not> truthy (w_phone e))"
proof -
  assume "(k, e) \<in> set (workerMap visits)"
  then have g: "worker_group k visits \<noteq> []" and e: "e = group_entry (worker_group k visits)"
    by (simp_all add: workerMap_entry)
  show ?thesis
  proof (cases "find (\<lambda>v. truthy (worker_phone v)) (worker_group k visits)")
    case None
    then have "\<not> truthy (worker_phone (hd (worker_group k visits)))"
      using g by (cases "worker_group k visits") (auto simp: find_None_iff)
    with None show ?thesis by (simp add: e group_entry_def)
  next
    case (Some u)
    then show ?thesis by (simp add: e group_entry_def)
  qed
qed

theorem worker_rollup_phone_witness:
  "(''jane'', hd (workerStats [jane1, jane2, jane3, jane4]))
       \<in> set (workerMap [jane1, jane2, jane3, jane4])
   \<and> w_phone (hd (workerStats [jane1, jane2, jane3, jane4])) = Some ''9000000001''
   \<and> (''jane'', hd (workerStats [jane1, jane2])) \<in> set (workerMap [jane1, jane2])
   \<and> \<not> truthy (w_phone (hd (workerStats [jane1, jane2])))"
proof -
  let ?vs = "[jane1, jane2, jane3, jane4]"
  let ?ws = "[jane1, jane2]"
  have mem: "(''jane'', hd (workerStats ?vs)) \<in> set (workerMap ?vs)" by code_simp
  have f: "find (\<lambda>v. truthy (worker_phone v)) (worker_group ''jane'' ?vs) = Some jane3"
    by code_simp
  have p: "worker_phone jane3 = Some ''9000000001''" by (simp add: jane3_def)
  from worker_rollup_phone [OF mem] f p
  have a: "w_phone (hd (workerStats ?vs)) = Some ''9000000001''" by simp
  have mem2: "(''jane'', hd (workerStats ?ws)) \<in> set (workerMap ?ws)" by code_simp
  have f2: "find (\<lambda>v. truthy (worker_phone v)) (worker_group ''jane'' ?ws) = None"
    by code_simp
  from worker_rollup_phone [OF mem2, unfolded f2 option.case]
  have b: "\<not> truthy (w_phone (hd (workerStats ?ws)))" by (rule conjunct2)
  from mem a mem2 b show ?thesis by blast
qed

section \<open>Visit form: theorems\<close>

lemma visitData_exclusive: "status_exclusive (visitData formData location p)"
  by (simp add: status_exclusive_def visitData_def)

lemma exclusive_keep_ids:
  "status_exclusive v \<Longrightarrow> status_exclusive (v\<lparr>row_id := i, created_at := c\<rparr>)"
  "status_exclusive v \<Longrightarrow> status_exclusive (v\<lparr>row_id := i\<rparr>)"
  by (simp_all add: status_exclusive_def)

lemma store_update_rows:
  assumes "status_exclusive payload" and "row \<in> set (store_update_visit i payload rows)"
  shows "row \<in> set rows \<or> status_exclusive row"
  using assms by (auto simp: store_update_visit_def exclusive_keep_ids)

lemma store_insert_rows:
  assumes "status_exclusive payload" and "row \<in> set (store_insert_visit i payload rows)"
  shows "row \<in> set rows \<or> status_exclusive row"
  using assms by (auto simp: store_insert_visit_def exclusive_keep_ids)

lemma append_activity_visits [simp]: "visits_tbl (append_activity r a st) = visits_tbl st"
  by (simp add: append_activity_def split: option.splits)

lemma append_activity_console [simp]: "console (append_activity r a st) = console st"
  by (simp add: append_activity_def split: option.splits)

lemma append_activity_failed: "activity_error r = Some e \<Longrightarrow> append_activity r a st = st"
  by (simp add: append_activity_def)

lemma handleSubmit_visits:
  "visits_tbl (handleSubmit r initialData formData location photo st) =
     (if validatePhones formData \<and> visit_error r = None
      then (case existing_id initialData of
              Some i \<Rightarrow> store_update_visit i
                  (visitData formData location (uploaded_photo_url r initialData photo)) (visits_tbl st)
            | None \<Rightarrow> store_insert_visit (new_row_id r)
                  (visitData formData location (uploaded_photo_url r initialData photo)) (visits_tbl st))
      else visits_tbl st)"
  by (simp add: handleSubmit_def Let_def split: option.splits)

lemma handleSubmit_console:
  "console (handleSubmit r initialData formData location photo st) = console st"
  by (simp add: handleSubmit_def Let_def split: option.splits)

lemma handleSubmit_msg:
  "validatePhones formData \<Longrightarrow> visit_error r = None \<Longrightarrow>
   msg (handleSubmit r initialData formData location photo st) =
     Some (Success, if initialData \<noteq> None then ''Visit updated successfully!''
                    else ''Visit recorded successfully!'')"
  by (simp add: handleSubmit_def Let_def split: option.splits)

lemma handleSubmit_activities_failed:
  "activity_error r = Some e \<Longrightarrow>
   activities_tbl (handleSubmit r initialData formData location photo st) = activities_tbl st"
  by (simp add: handleSubmit_def Let_def append_activity_failed split: option.splits)

text \<open>
  C5. The record that the form writes, on create and on update, satisfies the
  status-exclusivity invariant: \<open>follow_up_at\<close> is null unless the status is follow-up,
  \<open>budget\<close> is 0 unless the status is converted, and \<open>rejection_reason\<close> is null unless
  the status is rejected. So every row of \<^verbatim>\<open>visits\<close> after a submission is a row that
  was there before or satisfies the invariant.
\<close>

theorem form_writes_status_exclusive:
  "status_exclusive (visitData formData location p)
   \<and> (\<forall>row \<in> set (visits_tbl (handleSubmit r initialData formData location photo st)).
         row \<in> set (visits_tbl st) \<or> status_exclusive row)"
proof (intro conjI ballI)
  show "status_exclusive (visitData formData location p)" by (rule visitData_exclusive)
next
  fix row
  assume "row \<in> set (visits_tbl (handleSubmit r initialData formData location photo st))"
  then show "row \<in> set (visits_tbl st) \<or> status_exclusive row"
    using store_update_rows [OF visitData_exclusive] store_insert_rows [OF visitData_exclusive]
    by (auto simp: handleSubmit_visits split: if_splits option.splits)
qed

theorem form_writes_status_exclusive_witness:
  "follow_up_at (visitData form_input no_location None) = None
   \<and> rejection_reason (visitData form_input no_location None) = None
   \<and> follow_up_at (hd (visits_tbl
        (handleSubmit activity_fails (Some stored_visit) form_input no_location None submit_state0))) = None
   \<and> rejection_reason (hd (visits_tbl
        (handleSubmit activity_fails (Some stored_visit) form_input no_location None submit_state0))) = None
   \<and> budget (hd (visits_tbl
        (handleSubmit activity_fails (Some stored_visit) form_input no_location None submit_state0))) = 500"
proof -
  let ?st = "handleSubmit activity_fails (Some stored_visit) form_input no_location None submit_state0"
  let ?row = "hd (visits_tbl ?st)"
  have mem: "?row \<in> set (visits_tbl ?st)" by code_simp
  have new: "?row \<notin> set (visits_tbl submit_state0)" by code_simp
  have st: "status ?row = Converted" by code_simp
  have bud: "budget ?row = 500" by code_simp
  have st0: "status (visitData form_input no_location None) = Converted" by code_simp
  from form_writes_status_exclusive
    [of form_input no_location None activity_fails "Some stored_visit" None submit_state0]
  have pay: "status_exclusive (visitData form_input no_location None)"
    and rows: "\<forall>row \<in> set (visits_tbl ?st). row \<in> set (visits_tbl submit_state0) \<or> status_exclusive row"
    by blast+
  from rows mem new have "status_exclusive ?row" by blast
  with st have "follow_up_at ?row = None" "rejection_reason ?row = None"
    by (simp_all add: status_exclusive_def)
  moreover from pay st0 have "follow_up_at (visitData form_input no_location None) = None"
    "rejection_reason (visitData form_input no_location None) = None"
    by (simp_all add: status_exclusive_def)
  ultimately show ?thesis using bud by blast
qed

text \<open>
  C6, as amended. When the write of the visit succeeds and the append of the activity
  entry fails, the visit write stays (the collection holds the updated or inserted
  row), the form reports success, no activity entry is added, and the failure is
  dropped: nothing is written to the console.
\<close>

theorem activity_failure_is_dropped:
  assumes "validatePhones formData" and "visit_error r = None" and "activity_error r = Some e"
  shows "visits_tbl (handleSubmit r initialData formData location photo st) =
           (case existing_id initialData of
              Some i \<Rightarrow> store_update_visit i
                  (visitData formData location (uploaded_photo_url r initialData photo)) (visits_tbl st)
            | None \<Rightarrow> store_insert_visit (new_row_id r)
                  (visitData formData location (uploaded_photo_url r initialData photo)) (visits_tbl st))
       \<and> msg (handleSubmit r initialData formData location photo st) =
           Some (Success, if initialData \<noteq> None then ''Visit updated successfully!''
                          else ''Visit recorded successfully!'')
       \<and> activities_tbl (handleSubmit r initialData formData location photo st) = activities_tbl st
       \<and> console (handleSubmit r initialData formData location photo st) = console st"
  using assms
  by (simp add: handleSubmit_visits handleSubmit_msg handleSubmit_activities_failed
      handleSubmit_console)

theorem activity_failure_is_dropped_witness:
  "validatePhones form_input
   \<and> visit_error activity_fails = None
   \<and> activity_error activity_fails = Some ''permission denied''
   \<and> visits_tbl (handleSubmit activity_fails (Some stored_visit) form_input no_location None
        submit_state0)
      = [form_input\<lparr>row_id := Some ''v1'', created_at := Some ''2026-01-01'',
           address := Some [], follow_up_at := None, rejection_reason := None\<rparr>]
   \<and> msg (handleSubmit activity_fails (Some stored_visit) form_input no_location None
        submit_state0) = Some (Success, ''Visit updated successfully!'')
   \<and> activities_tbl (handleSubmit activity_fails (Some stored_visit) form_input no_location None
        submit_state0) = []
   \<and> visits_tbl (handleSubmit activity_fails None form_input no_location None submit_state0)
      = [stored_visit, form_input\<lparr>row_id := Some ''v2'',
           address := Some [], follow_up_at := None, rejection_reason := None\<rparr>]
   \<and> msg (handleSubmit activity_fails None form_input no_location None submit_state0)
      = Some (Success, ''Visit recorded successfully!'')"
proof -
  have v: "validatePhones form_input" by code_simp
  have w: "visit_error activity_fails = None" by (simp add: activity_fails_def)
  have a: "activity_error activity_fails = Some ''permission denied''"
    by (simp add: activity_fails_def)
  have upd: "(case existing_id (Some stored_visit) of
              Some i \<Rightarrow> store_update_visit i
                  (visitData form_input no_location
                     (uploaded_photo_url activity_fails (Some stored_visit) None))
                  (visits_tbl submit_state0)
            | None \<Rightarrow> store_insert_visit (new_row_id activity_fails)
                  (visitData form_input no_location
                     (uploaded_photo_url activity_fails (Some stored_visit) None))
                  (visits_tbl submit_state0))
      = [form_input\<lparr>row_id := Some ''v1'', created_at := Some ''2026-01-01'',
           address := Some [], follow_up_at := None, rejection_reason := None\<rparr>]"
    by code_simp
  have ins: "(case existing_id None of
              Some i \<Rightarrow> store_update_visit i
                  (visitData form_input no_location (uploaded_photo_url activity_fails None None))
                  (visits_tbl submit_state0)
            | None \<Rightarrow> store_insert_visit (new_row_id activity_fails)
                  (visitData form_input no_location (uploaded_photo_url activity_fails None None))
                  (visits_tbl submit_state0))
      = [stored_visit, form_input\<lparr>row_id := Some ''v2'',
           address := Some [], follow_up_at := None, rejection_reason := None\<rparr>]"
    by code_simp
  have acts: "activities_tbl submit_state0 = []" by (simp add: submit_state0_def)
  from activity_failure_is_dropped [OF v w a, of "Some stored_visit" no_location None submit_state0]
    activity_failure_is_dropped [OF v w a, of None no_location None submit_state0]
    upd ins acts v w a
  show ?thesis by simp
qed

text \<open>
  C6 as it is stated fails on the logging. On this update the write of the visit
  succeeds and the append of the activity entry fails; the visit write stays and the
  form reports success, but the console is as empty after the submission as before:
  the answer of the append is never read, so its failure is not logged.
\<close>

theorem activity_failure_logged_counterexample:
  "validatePhones form_input
   \<and> visit_error activity_fails = None
   \<and> activity_error activity_fails = Some ''permission denied''
   \<and> visits_tbl (handleSubmit activity_fails (Some stored_visit) form_input no_location None
        submit_state0) \<noteq> visits_tbl submit_state0
   \<and> msg (handleSubmit activity_fails (Some stored_visit) form_input no_location None
        submit_state0) = Some (Success, ''Visit updated successfully!'')
   \<and> console submit_state0 = []
   \<and> console (handleSubmit activity_fails (Some stored_visit) form_input no_location None
        submit_state0) = []"
  by code_simp

section \<open>Authentication check: theorems\<close>

lemma str_includes_at: "str_includes s ''@'' \<longleftrightarrow> CHR ''@'' \<in> set s"
  by (induction s) auto

lemma authenticate_query:
  "(if str_includes (toLowerCase (trim ident)) ''@''
    then ''email.eq.'' @ toLowerCase (trim ident)
    else ''mobile.eq.'' @ toLowerCase (trim ident)) = query_text ident"
  by (simp add: query_text_def str_includes_at)

lemma handleAuth_users: "users_tbl (handleAuth users_or fetchError portal ident password st) = users_tbl st"
  by (simp add: handleAuth_def Let_def split: sum.splits prod.splits)

lemma handleAuth_rejected:
  "authenticate users_or fetchError portal ident password (users_tbl st) = Inl m \<Longrightarrow>
   login_error (handleAuth users_or fetchError portal ident password st) = Some m
   \<and> session (handleAuth users_or fetchError portal ident password st) = session st"
  by (simp add: handleAuth_def Let_def)

lemma handleAuth_accepted:
  "authenticate users_or fetchError portal ident password (users_tbl st) = Inr (r, n) \<Longrightarrow>
   login_error (handleAuth users_or fetchError portal ident password st) = None
   \<and> session (handleAuth users_or fetchError portal ident password st) = Some (r, n)"
  by (simp add: handleAuth_def Let_def)

lemma authenticate_no_match:
  "fetchError \<or> users_or (query_text ident) tbl = [] \<Longrightarrow>
   authenticate users_or fetchError portal ident password tbl
     = Inl ''Invalid credentials or account not found.''"
  by (auto simp: authenticate_def Let_def authenticate_query)

lemma authenticate_first_match:
  assumes "\<not> fetchError" and "users_or (query_text ident) tbl = user # others"
  shows "authenticate users_or fetchError portal ident password tbl =
     (if portal = Portal_worker \<and> role user \<noteq> WORKER
      then Inl ''Access Denied: This account is not registered as a Field Worker.''
      else if portal = Portal_admin \<and> role user \<noteq> ADMIN
      then Inl ''Access Denied: Administrative privileges required.''
      else if \<not> is_active user
      then Inl ''Account Suspended: Please contact your administrator.''
      else if password_hash user \<noteq> password
      then Inl ''Incorrect password. Please try again.''
      else Inr (role user, name user))"
  using assms by (simp add: authenticate_def Let_def authenticate_query)

text \<open>
  C7. When the account matched by a login on the admin portal, which is the first row
  that the query of the login returns, has the role worker, the login is rejected with
  the access-denied message of that portal, nobody is logged in and the stored accounts
  are unchanged; the same holds on the worker portal for an account with the role
  admin. This holds whatever rows the store answers for the query.
\<close>

theorem role_mismatch_access_denied:
  assumes "\<not> fetchError"
    and "users_or (query_text ident) (users_tbl st) = user # others"
  shows "(portal = Portal_admin \<and> role user = WORKER \<longrightarrow>
            login_error (handleAuth users_or fetchError portal ident password st)
              = Some ''Access Denied: Administrative privileges required.''
            \<and> session (handleAuth users_or fetchError portal ident password st) = session st
            \<and> users_tbl (handleAuth users_or fetchError portal ident password st) = users_tbl st)
       \<and> (portal = Portal_worker \<and> role user = ADMIN \<longrightarrow>
            login_error (handleAuth users_or fetchError portal ident password st)
              = Some ''Access Denied: This account is not registered as a Field Worker.''
            \<and> session (handleAuth users_or fetchError portal ident password st) = session st
            \<and> users_tbl (handleAuth users_or fetchError portal ident password st) = users_tbl st)"
proof (intro conjI impI)
  assume p: "portal = Portal_admin \<and> role user = WORKER"
  then have "authenticate users_or fetchError portal ident password (users_tbl st)
      = Inl ''Access Denied: Administrative privileges required.''"
    by (simp add: authenticate_first_match
        [where users_or = users_or and ident = ident and tbl = "users_tbl st",
         OF assms])
  from handleAuth_rejected [OF this]
  show "login_error (handleAuth users_or fetchError portal ident password st)
              = Some ''Access Denied: Administrative privileges required.''"
    and "session (handleAuth users_or fetchError portal ident password st) = session st"
    by simp_all
  show "users_tbl (handleAuth users_or fetchError portal ident password st) = users_tbl st"
    by (rule handleAuth_users)
next
  assume p: "portal = Portal_worker \<and> role user = ADMIN"
  then have "authenticate users_or fetchError portal ident password (users_tbl st)
      = Inl ''Access Denied: This account is not registered as a Field Worker.''"
    by (simp add: authenticate_first_match
        [where users_or = users_or and ident = ident and tbl = "users_tbl st",
         OF assms])
  from handleAuth_rejected [OF this]
  show "login_error (handleAuth users_or fetchError portal ident password st)
              = Some ''Access Denied: This account is not registered as a Field Worker.''"
    and "session (handleAuth users_or fetchError portal ident password st) = session st"
    by simp_all
  show "users_tbl (handleAuth users_or fetchError portal ident password st) = users_tbl st"
    by (rule handleAuth_users)
qed

theorem role_mismatch_access_denied_witness:
  "sample_or (query_text '' Ravi@Field.io '') (users_tbl login_state0) = [worker_account]
   \<and> role worker_account = WORKER
   \<and> login_error (handleAuth sample_or False Portal_admin '' Ravi@Field.io '' ''secret1'' login_state0)
        = Some ''Access Denied: Administrative privileges required.''
   \<and> session (handleAuth sample_or False Portal_admin '' Ravi@Field.io '' ''secret1'' login_state0) = None
   \<and> users_tbl (handleAuth sample_or False Portal_admin '' Ravi@Field.io '' ''secret1'' login_state0)
        = [worker_account, admin_account, twin_account]
   \<and> sample_or (query_text ''9000000000'') (users_tbl login_state0) = [admin_account]
   \<and> role admin_account = ADMIN
   \<and> login_error (handleAuth sample_or False Portal_worker ''9000000000'' ''secret2'' login_state0)
        = Some ''Access Denied: This account is not registered as a Field Worker.''
   \<and> session (handleAuth sample_or False Portal_worker ''9000000000'' ''secret2'' login_state0) = None
   \<and> users_tbl (handleAuth sample_or False Portal_worker ''9000000000'' ''secret2'' login_state0)
        = [worker_account, admin_account, twin_account]"
proof -
  have nf: "\<not> False" by simp
  have q1: "sample_or (query_text '' Ravi@Field.io '') (users_tbl login_state0)
      = worker_account # []" by code_simp
  have q2: "sample_or (query_text ''9000000000'') (users_tbl login_state0)
      = admin_account # []" by code_simp
  have r1: "role worker_account = WORKER" by (simp add: worker_account_def)
  have r2: "role admin_account = ADMIN" by (simp add: admin_account_def)
  have s0: "session login_state0 = None"
    "users_tbl login_state0 = [worker_account, admin_account, twin_account]"
    by (simp_all add: login_state0_def)
  from role_mismatch_access_denied
      [where users_or = sample_or and ident = "'' Ravi@Field.io ''" and st = login_state0
         and portal = Portal_admin and password = "''secret1''", OF nf q1]
    role_mismatch_access_denied
      [where users_or = sample_or and ident = "''9000000000''" and st = login_state0
         and portal = Portal_worker and password = "''secret2''", OF nf q2]
    q1 q2 r1 r2 s0
  show ?thesis by simp
qed

text \<open>
  C8, as amended. A login attempt never changes the stored accounts. It sends one query
  to the store, with the filter text \<open>email.eq.\<close> (an identifier with an at sign) or
  \<open>mobile.eq.\<close> (any other) followed by the trimmed, lower-cased identifier as it was
  typed. When the query fails or returns no row, the login is blocked with the
  not-found message. Otherwise the role, the active flag and the password are verified,
  in this order, against the first row the query returns, whatever other rows it
  returns and whatever the email and the mobile of that row are: the login succeeds as
  that account when all three pass, and fails with the message of the first check that
  does not. This holds for every answer of the store.
\<close>

theorem login_verifies_first_match:
  "users_tbl (handleAuth users_or fetchError portal ident password st) = users_tbl st
   \<and> (fetchError \<or> users_or (query_text ident) (users_tbl st) = [] \<longrightarrow>
        login_error (handleAuth users_or fetchError portal ident password st)
          = Some ''Invalid credentials or account not found.''
        \<and> session (handleAuth users_or fetchError portal ident password st) = session st)
   \<and> (\<forall>user others.
        \<not> fetchError \<and>
        users_or (query_text ident) (users_tbl st) = user # others \<longrightarrow>
        (if portal_admits portal user \<and> is_active user \<and> password_hash user = password
         then session (handleAuth users_or fetchError portal ident password st)
                = Some (role user, name user)
              \<and> login_error (handleAuth users_or fetchError portal ident password st) = None
         else session (handleAuth users_or fetchError portal ident password st) = session st
              \<and> login_error (handleAuth users_or fetchError portal ident password st) =
                  Some (if \<not> portal_admits portal user
                        then (if portal = Portal_worker
                              then ''Access Denied: This account is not registered as a Field Worker.''
                              else ''Access Denied: Administrative privileges required.'')
                        else if \<not> is_active user
                        then ''Account Suspended: Please contact your administrator.''
                        else ''Incorrect password. Please try again.'')))"
proof (intro conjI allI impI)
  show "users_tbl (handleAuth users_or fetchError portal ident password st) = users_tbl st"
    by (rule handleAuth_users)
next
  assume "fetchError \<or> users_or (query_text ident) (users_tbl st) = []"
  from handleAuth_rejected [OF authenticate_no_match
      [where users_or = users_or and ident = ident and tbl = "users_tbl st", OF this]]
  show "login_error (handleAuth users_or fetchError portal ident password st)
          = Some ''Invalid credentials or account not found.''"
    and "session (handleAuth users_or fetchError portal ident password st) = session st"
    by simp_all
next
  fix user others
  assume a: "\<not> fetchError \<and>
        users_or (query_text ident) (users_tbl st) = user # others"
  then have auth: "authenticate users_or fetchError portal ident password (users_tbl st) =
     (if portal = Portal_worker \<and> role user \<noteq> WORKER
      then Inl ''Access Denied: This account is not registered as a Field Worker.''
      else if portal = Portal_admin \<and> role user \<noteq> ADMIN
      then Inl ''Access Denied: Administrative privileges required.''
      else if \<not> is_active user
      then Inl ''Account Suspended: Please contact your administrator.''
      else if password_hash user \<noteq> password
      then Inl ''Incorrect password. Please try again.''
      else Inr (role user, name user))"
    by (simp add: authenticate_first_match
        [where users_or = users_or and ident = ident and tbl = "users_tbl st"])
  show "(if portal_admits portal user \<and> is_active user \<and> password_hash user = password
         then session (handleAuth users_or fetchError portal ident password st)
                = Some (role user, name user)
              \<and> login_error (handleAuth users_or fetchError portal ident password st) = None
         else session (handleAuth users_or fetchError portal ident password st) = session st
              \<and> login_error (handleAuth users_or fetchError portal ident password st) =
                  Some (if \<not> portal_admits portal user
                        then (if portal = Portal_worker
                              then ''Access Denied: This account is not registered as a Field Worker.''
                              else ''Access Denied: Administrative privileges required.'')
                        else if \<not> is_active user
                        then ''Account Suspended: Please contact your administrator.''
                        else ''Incorrect password. Please try again.''))"
  proof (cases "portal_admits portal user \<and> is_active user \<and> password_hash user = password")
    case True
    with auth have "authenticate users_or fetchError portal ident password (users_tbl st)
        = Inr (role user, name user)"
      by (simp add: portal_admits_def)
    from handleAuth_accepted [OF this] True show ?thesis by simp
  next
    case False
    let ?m = "if \<not> portal_admits portal user
                        then (if portal = Portal_worker
                              then ''Access Denied: This account is not registered as a Field Worker.''
                              else ''Access Denied: Administrative privileges required.'')
                        else if \<not> is_active user
                        then ''Account Suspended: Please contact your administrator.''
                        else ''Incorrect password. Please try again.''"
    from False auth have "authenticate users_or fetchError portal ident password (users_tbl st) = Inl ?m"
      by (cases portal) (auto simp: portal_admits_def)
    from handleAuth_rejected [OF this] False show ?thesis by simp
  qed
qed

theorem login_verifies_first_match_witness:
  "sample_or (query_text ''9876543210'') (users_tbl login_state0)
     = [worker_account, twin_account]
   \<and> session (handleAuth sample_or False Portal_worker ''9876543210'' ''secret1'' login_state0)
        = Some (WORKER, ''Ravi'')
   \<and> login_error (handleAuth sample_or False Portal_worker ''9876543210'' ''secret1'' login_state0) = None
   \<and> session (handleAuth sample_or False Portal_worker ''9876543210'' ''secret3'' login_state0) = None
   \<and> login_error (handleAuth sample_or False Portal_worker ''9876543210'' ''secret3'' login_state0)
        = Some ''Incorrect password. Please try again.''
   \<and> sample_or (query_text ''nobody@field.io'') (users_tbl login_state0) = []
   \<and> login_error (handleAuth sample_or False Portal_worker ''nobody@field.io'' ''secret1'' login_state0)
        = Some ''Invalid credentials or account not found.''
   \<and> session (handleAuth sample_or False Portal_worker ''nobody@field.io'' ''secret1'' login_state0) = None"
proof -
  have q: "\<not> False \<and> sample_or (query_text ''9876543210'') (users_tbl login_state0)
      = worker_account # [twin_account]" by code_simp
  have q0: "False \<or> sample_or (query_text ''nobody@field.io'') (users_tbl login_state0) = []"
    by code_simp
  have ok: "(portal_admits Portal_worker worker_account \<and> is_active worker_account
      \<and> password_hash worker_account = ''secret1'') = True" by code_simp
  have bad: "(portal_admits Portal_worker worker_account \<and> is_active worker_account
      \<and> password_hash worker_account = ''secret3'') = False" by code_simp
  have why: "(if \<not> portal_admits Portal_worker worker_account
               then (if Portal_worker = Portal_worker
                     then ''Access Denied: This account is not registered as a Field Worker.''
                     else ''Access Denied: Administrative privileges required.'')
               else if \<not> is_active worker_account
               then ''Account Suspended: Please contact your administrator.''
               else ''Incorrect password. Please try again.'')
      = ''Incorrect password. Please try again.''"
    by (simp add: portal_admits_def worker_account_def)
  have s0: "session login_state0 = None" by (simp add: login_state0_def)
  have fields: "role worker_account = WORKER" "name worker_account = ''Ravi''"
    by (simp_all add: worker_account_def)
  note first = login_verifies_first_match
    [where users_or = sample_or and st = login_state0 and portal = Portal_worker
       and ident = "''9876543210''" and fetchError = False,
     THEN conjunct2, THEN conjunct2, rule_format]
  note none = login_verifies_first_match
    [where users_or = sample_or and st = login_state0 and portal = Portal_worker
       and ident = "''nobody@field.io''" and fetchError = False,
     THEN conjunct2, THEN conjunct1, rule_format]
  have a: "session (handleAuth sample_or False Portal_worker ''9876543210'' ''secret1'' login_state0)
                = Some (WORKER, ''Ravi'')
      \<and> login_error (handleAuth sample_or False Portal_worker ''9876543210'' ''secret1'' login_state0) = None"
    using first [where password = "''secret1''", OF q] by (simp only: ok if_True fields)
  have b: "session (handleAuth sample_or False Portal_worker ''9876543210'' ''secret3'' login_state0) = None
      \<and> login_error (handleAuth sample_or False Portal_worker ''9876543210'' ''secret3'' login_state0)
           = Some ''Incorrect password. Please try again.''"
    using first [where password = "''secret3''", OF q] by (simp only: bad if_False why s0)
  have c: "login_error (handleAuth sample_or False Portal_worker ''nobody@field.io'' ''secret1'' login_state0)
        = Some ''Invalid credentials or account not found.''
     \<and> session (handleAuth sample_or False Portal_worker ''nobody@field.io'' ''secret1'' login_state0) = None"
    using none [where password = "''secret1''", OF q0] by (simp only: s0)
  have q': "sample_or (query_text ''9876543210'') (users_tbl login_state0)
      = [worker_account, twin_account]" using q by (rule conjunct2)
  have q0': "sample_or (query_text ''nobody@field.io'') (users_tbl login_state0) = []"
    by code_simp
  show ?thesis
    using q' q0' a b c by (intro conjI) (erule conjunct1 conjunct2 | assumption)+
qed

text \<open>
  C8 as it is stated fails in two ways. Two different accounts of \<open>login_state0\<close> have
  the mobile \<open>''9876543210''\<close>, so the query returns both and there is no unique
  matching account; the verifications run against the first one only: the password of
  the second account is rejected as incorrect, the password of the first logs its owner
  in. And the identifier \<open>''x,role.eq.admin''\<close> is pasted into the filter text, where
  the comma adds an alternative, so the store answers with the admin account, whose
  email and mobile are not the identifier: with that account's password the login
  succeeds as the admin.
\<close>

theorem login_unique_account_counterexample:
  "sample_or (query_text ''9876543210'') (users_tbl login_state0)
     = [worker_account, twin_account]
   \<and> worker_account \<noteq> twin_account
   \<and> password_hash twin_account = ''secret3''
   \<and> login_error (handleAuth sample_or False Portal_worker ''9876543210'' ''secret3'' login_state0)
        = Some ''Incorrect password. Please try again.''
   \<and> session (handleAuth sample_or False Portal_worker ''9876543210'' ''secret1'' login_state0)
        = Some (WORKER, ''Ravi'')
   \<and> query_text ''x,role.eq.admin'' = ''mobile.eq.x,role.eq.admin''
   \<and> email admin_account \<noteq> ''x,role.eq.admin''
   \<and> mobile admin_account \<noteq> ''x,role.eq.admin''
   \<and> session (handleAuth sample_or False Portal_admin ''x,role.eq.admin'' ''secret2'' login_state0)
        = Some (ADMIN, ''Asha'')"
  by code_simp

end
